theory Spec2Isabelle
  imports Complex_Main "HOL-Library.AList" "HOL-Library.Sublist"
begin

section \<open>JavaScript values\<close>

text \<open>
  The two HTTP actions of \<^verbatim>\<open>convex/http.ts\<close> work on values produced by
  \<^verbatim>\<open>JSON.parse\<close>. A value is modelled as the datatype below; an object is the list of
  its own properties in insertion order, with distinct keys. A string is the list of its
  code units, here those below 256. A number is the rational that the finite double
  stands for; the handlers only test numbers for truthiness and pass them on.
  Console output is not modelled.
\<close>

datatype jsval =
    JUndefined
  | JNull
  | JBool bool
  | JNum rat
  | JStr string
  | JArr "jsval list"
  | JObj "(string \<times> jsval) list"

text \<open>The truthiness test of \<^verbatim>\<open>&&\<close>, \<^verbatim>\<open>||\<close> and \<^verbatim>\<open>!\<close>.\<close>

fun truthy :: "jsval \<Rightarrow> bool" where
  "truthy JUndefined = False"
| "truthy JNull = False"
| "truthy (JBool b) = b"
| "truthy (JNum n) = (n \<noteq> 0)"
| "truthy (JStr s) = (s \<noteq> [])"
| "truthy (JArr xs) = True"
| "truthy (JObj kvs) = True"

text \<open>
  A thrown value: an instance of \<^verbatim>\<open>Error\<close> with its name and message, or some other
  value, kept as its \<^verbatim>\<open>String(...)\<close> conversion.
\<close>

datatype thrown =
    ErrorInstance string string
  | NonError string

text \<open>\<^verbatim>\<open>String(err)\<close>, as the template literal \<^verbatim>\<open>${parseErr}\<close> computes it.\<close>

fun String_of :: "thrown \<Rightarrow> string" where
  "String_of (ErrorInstance nm msg) =
     (if nm = [] then msg else if msg = [] then nm else nm @ '': '' @ msg)"
| "String_of (NonError s) = s"

text \<open>\<^verbatim>\<open>error instanceof Error ? error.message : String(error)\<close>\<close>

fun error_message :: "thrown \<Rightarrow> string" where
  "error_message (ErrorInstance nm msg) = msg"
| "error_message (NonError s) = s"

text \<open>
  Reading a property \<^verbatim>\<open>v.k\<close>. The handlers read the keys \<^verbatim>\<open>success\<close>,
  \<^verbatim>\<open>data\<close>, \<^verbatim>\<open>diet_plan\<close>, \<^verbatim>\<open>workout_plan\<close>, \<^verbatim>\<open>user_id\<close> and
  \<^verbatim>\<open>name\<close>: none of them is inherited from a prototype, so the read yields the own
  property of an object and \<^verbatim>\<open>undefined\<close> on a number, a boolean, a string or an array.
  On \<^verbatim>\<open>null\<close> and \<^verbatim>\<open>undefined\<close> it throws a \<^verbatim>\<open>TypeError\<close>.
\<close>

fun own :: "jsval \<Rightarrow> string \<Rightarrow> jsval" where
  "own (JObj kvs) k = (case map_of kvs k of None \<Rightarrow> JUndefined | Some v \<Rightarrow> v)"
| "own v k = JUndefined"

definition cannot_read :: "string \<Rightarrow> string \<Rightarrow> thrown" where
  "cannot_read what k =
     ErrorInstance ''TypeError''
       (''Cannot read properties of '' @ what @ '' (reading '' @ [CHR 0x27] @ k @ [CHR 0x27] @ '')'')"

fun get_prop :: "jsval \<Rightarrow> string \<Rightarrow> thrown + jsval" where
  "get_prop JNull k = Inl (cannot_read ''null'' k)"
| "get_prop JUndefined k = Inl (cannot_read ''undefined'' k)"
| "get_prop v k = Inr (own v k)"

text \<open>
  Decimal digits of a number, as \<^verbatim>\<open>${response.status}\<close> prints them; \<open>digit\<close>
  is only applied to a number below 10.
\<close>

definition digit :: "nat \<Rightarrow> char" where
  "digit d = ''0123456789'' ! d"

fun show_nat :: "nat \<Rightarrow> string" where
  "show_nat n = (if n < 10 then [digit n] else show_nat (n div 10) @ [digit (n mod 10)])"

declare show_nat.simps [simp del]

text \<open>
  The own enumerable properties copied by the object spread \<^verbatim>\<open>{...v}\<close>: those of an
  object, the indexed elements of an array or string, nothing otherwise.
\<close>

fun spread :: "jsval \<Rightarrow> (string \<times> jsval) list" where
  "spread (JObj kvs) = kvs"
| "spread (JArr xs) = zip (map show_nat [0..<length xs]) xs"
| "spread (JStr s) = zip (map show_nat [0..<length s]) (map (\<lambda>c. JStr [c]) s)"
| "spread v = []"

section \<open>Strings\<close>

text \<open>
  \<^verbatim>\<open>String.prototype.trim\<close> removes white space and line terminators from both ends.
  Among the code units below 256 these are TAB, LF, VT, FF, CR, SPACE and NBSP.
\<close>

definition is_ws :: "char \<Rightarrow> bool" where
  "is_ws c = (c \<in> set [CHR 0x09, CHR 0x0A, CHR 0x0B, CHR 0x0C, CHR 0x0D, CHR 0x20, CHR 0xA0])"

definition trim :: "string \<Rightarrow> string" where
  "trim s = rev (dropWhile is_ws (rev (dropWhile is_ws s)))"

section \<open>Requests, responses and the outside world\<close>

record request =
  headers :: "string \<rightharpoonup> string"
  body :: string

text \<open>\<^verbatim>\<open>new Response(body, { status, headers })\<close>\<close>

datatype response = Response string nat "(string \<times> string) list"

text \<open>A handler either returns a response or lets an exception escape.\<close>

datatype outcome = Returns response | Throws thrown

text \<open>The event type of the Clerk SDK, as far as the webhook handler reads it.\<close>

datatype nullable_string = Undefined | Null | Str string

record email_address_json =
  email_address :: string

record user_json =
  id' :: string
  first_name :: nullable_string
  last_name :: nullable_string
  image_url :: string
  email_addresses :: "email_address_json list"

record webhook_event =
  type :: string
  data :: user_json

datatype mutation_ref = users_syncUser | users_updateUser | plans_createPlan

text \<open>What a handler does to the outside, in the order it does it.\<close>

datatype effect =
    HeadersGet string
  | RequestJson
  | WebhookVerify string string string string
  | Fetch string string
  | RunMutation mutation_ref jsval

text \<open>
  The environment and the library functions the handlers call are parameters of the model:
  the environment variable, \<^verbatim>\<open>JSON.parse\<close> and \<^verbatim>\<open>JSON.stringify\<close>, the svix
  \<^verbatim>\<open>Webhook\<close> constructor (a thrown value when it rejects the secret) and its
  \<^verbatim>\<open>verify\<close> method (secret, body, svix-id, svix-timestamp, svix-signature), the
  Convex \<^verbatim>\<open>ctx.runMutation\<close>, and the HTTP exchange \<^verbatim>\<open>fetch\<close> followed by
  \<^verbatim>\<open>response.text()\<close> (url, request body), which yields the status and the response
  text or throws. Whatever throws yields \<open>Inl\<close>.
\<close>

record world =
  CLERK_WEBHOOK_SECRET :: "string option"
  JSON_parse :: "string \<Rightarrow> thrown + jsval"
  JSON_stringify :: "jsval \<Rightarrow> string"
  Webhook_new :: "string \<Rightarrow> thrown option"
  Webhook_verify :: "string \<Rightarrow> string \<Rightarrow> string \<Rightarrow> string \<Rightarrow> string \<Rightarrow> thrown + webhook_event"
  runMutation :: "mutation_ref \<Rightarrow> jsval \<Rightarrow> thrown + jsval"
  fetch :: "string \<Rightarrow> string \<Rightarrow> thrown + nat \<times> string"

section \<open>The Clerk webhook route\<close>

text \<open>
  \<^verbatim>\<open>!x\<close> for an environment variable or the result of
  \<^verbatim>\<open>request.headers.get(...)\<close>: it is null (\<open>None\<close>) or the empty string.
\<close>

fun absent :: "string option \<Rightarrow> bool" where
  "absent None = True"
| "absent (Some v) = (v = [])"

text \<open>\<^verbatim>\<open>${x || ""}\<close> for a first or last name.\<close>

fun truthy_string :: "nullable_string \<Rightarrow> bool" where
  "truthy_string (Str s) = (s \<noteq> [])"
| "truthy_string v = False"

fun or_empty :: "nullable_string \<Rightarrow> string" where
  "or_empty v = (if truthy_string v then (case v of Str s \<Rightarrow> s | _ \<Rightarrow> []) else [])"

definition full_name :: "user_json \<Rightarrow> string" where
  "full_name d = trim (or_empty (first_name d) @ '' '' @ or_empty (last_name d))"

definition user_args :: "user_json \<Rightarrow> string \<Rightarrow> jsval" where
  "user_args d email =
     JObj [(''email'', JStr email), (''name'', JStr (full_name d)),
           (''image'', JStr (image_url d)), (''clerkId'', JStr (id' d))]"

text \<open>
  One branch of the dispatch: the mutation it runs and the text of its 500 response.
  The result is the effects and, when the branch returns or throws, the outcome;
  \<open>None\<close> when control falls through to the code after the branch.
\<close>

definition sync_branch :: "world \<Rightarrow> mutation_ref \<Rightarrow> string \<Rightarrow> user_json \<Rightarrow> effect list \<times> outcome option" where
  "sync_branch w m failure d =
     (case email_addresses d of
        [] \<Rightarrow> ([], Some (Throws (cannot_read ''undefined'' ''email_address'')))
      | e # es \<Rightarrow>
          (let args = user_args d (email_address e) in
           case runMutation w m args of
             Inl err \<Rightarrow> ([RunMutation m args], Some (Returns (Response failure 500 [])))
           | Inr r \<Rightarrow> ([RunMutation m args], None)))"

definition dispatch :: "world \<Rightarrow> webhook_event \<Rightarrow> effect list \<times> outcome" where
  "dispatch w evt =
     (let eventType = type evt in
      case (if eventType = ''user.created''
            then sync_branch w users_syncUser ''Error creating user'' (data evt)
            else ([], None)) of
        (t1, Some out) \<Rightarrow> (t1, out)
      | (t1, None) \<Rightarrow>
          (case (if eventType = ''user.updated''
                 then sync_branch w users_updateUser ''Error updating user'' (data evt)
                 else ([], None)) of
             (t2, Some out) \<Rightarrow> (t1 @ t2, out)
           | (t2, None) \<Rightarrow>
               (t1 @ t2, Returns (Response ''Webhooks processed successfully'' 200 []))))"

definition missing_secret :: thrown where
  "missing_secret = ErrorInstance ''Error'' ''Missing CLERK_WEBHOOK_SECRET environment variable''"

definition svix_reads :: "effect list" where
  "svix_reads = [HeadersGet ''svix-id'', HeadersGet ''svix-signature'', HeadersGet ''svix-timestamp'']"

definition verify_and_dispatch :: "world \<Rightarrow> string \<Rightarrow> request \<Rightarrow> string \<Rightarrow> string \<Rightarrow> string \<Rightarrow> effect list \<times> outcome" where
  "verify_and_dispatch w webhookSecret request svix_id svix_signature svix_timestamp =
     (case JSON_parse w (body request) of
        Inl e \<Rightarrow> (svix_reads @ [RequestJson], Throws e)
      | Inr payload \<Rightarrow>
          (let body' = JSON_stringify w payload in
           case Webhook_new w webhookSecret of
             Some e \<Rightarrow> (svix_reads @ [RequestJson], Throws e)
           | None \<Rightarrow>
               (let t = svix_reads @ [RequestJson, WebhookVerify body' svix_id svix_timestamp svix_signature] in
                case Webhook_verify w webhookSecret body' svix_id svix_timestamp svix_signature of
                  Inl err \<Rightarrow> (t, Returns (Response ''Error occurred'' 400 []))
                | Inr evt \<Rightarrow> (case dispatch w evt of (t', out) \<Rightarrow> (t @ t', out)))))"

text \<open>
  Past the two tests the secret and the three headers are strings: \<open>the\<close> is applied
  to a value that is not null.
\<close>

definition clerk_webhook :: "world \<Rightarrow> request \<Rightarrow> effect list \<times> outcome" where
  "clerk_webhook w request =
     (let webhookSecret = CLERK_WEBHOOK_SECRET w in
      if absent webhookSecret then ([], Throws missing_secret)
      else
        (let svix_id = headers request ''svix-id'';
             svix_signature = headers request ''svix-signature'';
             svix_timestamp = headers request ''svix-timestamp''
         in if absent svix_id \<or> absent svix_signature \<or> absent svix_timestamp
            then (svix_reads, Returns (Response ''No svix headers found'' 400 []))
            else verify_and_dispatch w (the webhookSecret) request
                   (the svix_id) (the svix_signature) (the svix_timestamp)))"

section \<open>The plan generation route\<close>

definition pythonApiUrl :: string where
  "pythonApiUrl = ''http://localhost:8000/api/fitness_generator''"

definition json_headers :: "(string \<times> string) list" where
  "json_headers = [(''Content-Type'', ''application/json'')]"

text \<open>\<^verbatim>\<open>response.ok\<close>\<close>

definition ok :: "nat \<Rightarrow> bool" where
  "ok st = (200 \<le> st \<and> st \<le> 299)"

text \<open>The message \<^verbatim>\<open>`Python API error: ${response.status} - ${responseText}`\<close>\<close>

definition python_api_error :: "nat \<Rightarrow> string \<Rightarrow> string" where
  "python_api_error st responseText = ''Python API error: '' @ show_nat st @ '' - '' @ responseText"

text \<open>
  \<^verbatim>\<open>result.success && result.data && result.data.success\<close>, evaluated left to right
  with short circuit; a property read may throw.
\<close>

definition double_success :: "jsval \<Rightarrow> thrown + bool" where
  "double_success result =
     (case get_prop result ''success'' of
        Inl e \<Rightarrow> Inl e
      | Inr s \<Rightarrow>
          if \<not> truthy s then Inr False
          else (case get_prop result ''data'' of
                  Inl e \<Rightarrow> Inl e
                | Inr d \<Rightarrow>
                    if \<not> truthy d then Inr False
                    else (case get_prop d ''success'' of
                            Inl e \<Rightarrow> Inl e
                          | Inr ds \<Rightarrow> Inr (truthy ds))))"

text \<open>\<^verbatim>\<open>payload.name || "Fitness Plan"\<close>\<close>

definition or_default :: "jsval \<Rightarrow> jsval \<Rightarrow> jsval" where
  "or_default v dflt = (if truthy v then v else dflt)"

text \<open>The object literal \<^verbatim>\<open>planToSave\<close>; its property reads are evaluated in source order.\<close>

definition planToSave :: "jsval \<Rightarrow> jsval \<Rightarrow> thrown + jsval" where
  "planToSave payload result =
     (case get_prop payload ''user_id'' of
        Inl e \<Rightarrow> Inl e
      | Inr user_id \<Rightarrow>
     (case get_prop result ''data'' of
        Inl e \<Rightarrow> Inl e
      | Inr d \<Rightarrow>
     (case get_prop d ''diet_plan'' of
        Inl e \<Rightarrow> Inl e
      | Inr diet_plan \<Rightarrow>
     (case get_prop d ''workout_plan'' of
        Inl e \<Rightarrow> Inl e
      | Inr workout_plan \<Rightarrow>
     (case get_prop payload ''name'' of
        Inl e \<Rightarrow> Inl e
      | Inr nm \<Rightarrow>
          Inr (JObj [(''userId'', user_id), (''dietPlan'', diet_plan), (''isActive'', JBool True),
                     (''workoutPlan'', workout_plan),
                     (''name'', or_default nm (JStr ''Fitness Plan''))]))))))"

text \<open>\<^verbatim>\<open>{ ...result, planId }\<close>\<close>

definition with_planId :: "jsval \<Rightarrow> jsval \<Rightarrow> jsval" where
  "with_planId result planId = JObj (AList.update ''planId'' planId (spread result))"

text \<open>The body of the \<^verbatim>\<open>try\<close> block once the response text has been parsed.\<close>

definition save_or_forward :: "world \<Rightarrow> jsval \<Rightarrow> jsval \<Rightarrow> effect list \<times> (thrown + response)" where
  "save_or_forward w payload result =
     (case double_success result of
        Inl e \<Rightarrow> ([], Inl e)
      | Inr False \<Rightarrow> ([], Inr (Response (JSON_stringify w result) 500 json_headers))
      | Inr True \<Rightarrow>
          (case planToSave payload result of
             Inl e \<Rightarrow> ([], Inl e)
           | Inr plan \<Rightarrow>
               (case runMutation w plans_createPlan plan of
                  Inl e \<Rightarrow> ([RunMutation plans_createPlan plan], Inl e)
                | Inr planId \<Rightarrow>
                    ([RunMutation plans_createPlan plan],
                     Inr (Response (JSON_stringify w (with_planId result planId)) 200 json_headers)))))"

text \<open>The \<^verbatim>\<open>try\<close> block: \<open>Inl\<close> is the exception that reaches the \<^verbatim>\<open>catch\<close>.\<close>

definition try_generate :: "world \<Rightarrow> request \<Rightarrow> effect list \<times> (thrown + response)" where
  "try_generate w request =
     (case JSON_parse w (body request) of
        Inl e \<Rightarrow> ([RequestJson], Inl e)
      | Inr payload \<Rightarrow>
          (let sent = JSON_stringify w payload;
               t = [RequestJson, Fetch pythonApiUrl sent] in
           case fetch w pythonApiUrl sent of
             Inl e \<Rightarrow> (t, Inl e)
           | Inr (st, responseText) \<Rightarrow>
               if \<not> ok st
               then (t, Inl (ErrorInstance ''Error'' (python_api_error st responseText)))
               else (case JSON_parse w responseText of
                       Inl parseErr \<Rightarrow>
                         (t, Inl (ErrorInstance ''Error''
                                    (''Failed to parse Python backend JSON: '' @ String_of parseErr
                                       @ '' | Raw: '' @ responseText)))
                     | Inr result \<Rightarrow>
                         (case save_or_forward w payload result of (t', r) \<Rightarrow> (t @ t', r)))))"

text \<open>The payload of the \<^verbatim>\<open>catch\<close> block.\<close>

definition error_payload :: "thrown \<Rightarrow> jsval" where
  "error_payload e = JObj [(''success'', JBool False), (''error'', JStr (error_message e))]"

definition generate_program :: "world \<Rightarrow> request \<Rightarrow> effect list \<times> outcome" where
  "generate_program w request =
     (case try_generate w request of
        (t, Inr r) \<Rightarrow> (t, Returns r)
      | (t, Inl error) \<Rightarrow>
          (t, Returns (Response (JSON_stringify w (error_payload error)) 500 json_headers)))"

section \<open>What the claims observe\<close>

text \<open>The mutations a handler ran, and the bodies it handed to signature verification.\<close>

fun mutations :: "effect list \<Rightarrow> (mutation_ref \<times> jsval) list" where
  "mutations [] = []"
| "mutations (RunMutation m a # es) = (m, a) # mutations es"
| "mutations (e # es) = mutations es"

fun verified_bodies :: "effect list \<Rightarrow> string list" where
  "verified_bodies [] = []"
| "verified_bodies (WebhookVerify b i t s # es) = b # verified_bodies es"
| "verified_bodies (e # es) = verified_bodies es"

text \<open>
  The webhook secret is configured and the request carries the three svix headers, each
  with a value.
\<close>

definition carries_svix :: "world \<Rightarrow> request \<Rightarrow> string \<Rightarrow> string \<Rightarrow> string \<Rightarrow> string \<Rightarrow> bool" where
  "carries_svix w request secret i t s \<longleftrightarrow>
     CLERK_WEBHOOK_SECRET w = Some secret \<and> secret \<noteq> [] \<and>
     headers request ''svix-id'' = Some i \<and> i \<noteq> [] \<and>
     headers request ''svix-timestamp'' = Some t \<and> t \<noteq> [] \<and>
     headers request ''svix-signature'' = Some s \<and> s \<noteq> []"

definition nullish :: "jsval \<Rightarrow> bool" where
  "nullish v \<longleftrightarrow> v = JNull \<or> v = JUndefined"

section \<open>The specification's words\<close>

text \<open>
  The name of a user record as the specification derives it: the trimmed concatenation
  of first name, a space and last name, a missing part counting as the empty string.
\<close>

fun missing_as_empty :: "nullable_string \<Rightarrow> string" where
  "missing_as_empty (Str s) = s"
| "missing_as_empty Null = []"
| "missing_as_empty Undefined = []"

definition spec_name :: "nullable_string \<Rightarrow> nullable_string \<Rightarrow> string" where
  "spec_name given family = trim (missing_as_empty given @ '' '' @ missing_as_empty family)"

text \<open>The double-nested success of the specification: \<^verbatim>\<open>result.success && result.data.success\<close>.\<close>

definition spec_double_success :: "jsval \<Rightarrow> bool" where
  "spec_double_success result \<longleftrightarrow>
     truthy (own result ''success'') \<and> truthy (own (own result ''data'') ''success'')"

text \<open>
  The plan record: the user id of the request, the two plans of \<^verbatim>\<open>result.data\<close>,
  active, and the name of the request when that is truthy, the default name otherwise. A
  property that is missing reads as \<^verbatim>\<open>undefined\<close>.
\<close>

definition plan_record :: "jsval \<Rightarrow> jsval \<Rightarrow> jsval" where
  "plan_record payload result =
     JObj [(''userId'', own payload ''user_id''),
           (''dietPlan'', own (own result ''data'') ''diet_plan''),
           (''isActive'', JBool True),
           (''workoutPlan'', own (own result ''data'') ''workout_plan''),
           (''name'', if truthy (own payload ''name'') then own payload ''name''
                      else JStr ''Fitness Plan'')]"

text \<open>Reading a decimal numeral back, to say that \<open>show_nat\<close> prints the status code.\<close>

definition digit_value :: "char \<Rightarrow> nat" where
  "digit_value c = of_char c - 48"

definition read_nat :: "string \<Rightarrow> nat" where
  "read_nat s = foldl (\<lambda>acc c. 10 * acc + digit_value c) 0 s"

section \<open>Sample requests and a sample world\<close>

text \<open>
  Concrete inputs for the examples below. The sample \<^verbatim>\<open>JSON.stringify\<close> serialises
  values whose strings need no escaping and whose numbers are integers; the sample
  \<^verbatim>\<open>JSON.parse\<close> knows the documents listed in \<open>sample_documents\<close> and rejects
  every other text; the sample verifier accepts the signature \<^verbatim>\<open>v1,valid\<close> on the
  serialised sample events and rejects every other signature.
\<close>

definition quote :: "string \<Rightarrow> string" where
  "quote s = [CHR 0x22] @ s @ [CHR 0x22]"

fun commas :: "string list \<Rightarrow> string" where
  "commas [] = []"
| "commas [x] = x"
| "commas (x # y # ys) = x @ '','' @ commas (y # ys)"

fun sample_stringify :: "jsval \<Rightarrow> string" where
  "sample_stringify JUndefined = ''null''"
| "sample_stringify JNull = ''null''"
| "sample_stringify (JBool b) = (if b then ''true'' else ''false'')"
| "sample_stringify (JNum q) = (if q < 0 then ''-'' else []) @ show_nat (nat \<lfloor>\<bar>q\<bar>\<rfloor>)"
| "sample_stringify (JStr s) = quote s"
| "sample_stringify (JArr xs) = ''['' @ commas (map sample_stringify xs) @ '']''"
| "sample_stringify (JObj kvs) =
     ''{'' @ commas (map (\<lambda>(k, v). quote k @ '':'' @ sample_stringify v)
                      (filter (\<lambda>(k, v). v \<noteq> JUndefined) kvs)) @ ''}''"

definition created_raw :: string where
  \<open>created_raw = ''{"type": "user.created", "data": {"id": "user_1", "first_name": null, "last_name": "Lovelace", "image_url": "https://img.example/ada.png", "email_addresses": [{"email_address": "ada@example.com"}]}}''\<close>

definition created_json :: jsval where
  "created_json =
     JObj [(''type'', JStr ''user.created''),
           (''data'', JObj [(''id'', JStr ''user_1''), (''first_name'', JNull),
                            (''last_name'', JStr ''Lovelace''),
                            (''image_url'', JStr ''https://img.example/ada.png''),
                            (''email_addresses'',
                             JArr [JObj [(''email_address'', JStr ''ada@example.com'')]])])]"

definition created_event :: webhook_event where
  "created_event =
     \<lparr>type = ''user.created'',
      data = \<lparr>id' = ''user_1'', first_name = Null, last_name = Str ''Lovelace'',
              image_url = ''https://img.example/ada.png'',
              email_addresses = [\<lparr>email_address = ''ada@example.com''\<rparr>]\<rparr>\<rparr>"

definition updated_raw :: string where
  \<open>updated_raw = ''{"type":"user.updated","data":{"id":"user_1","first_name":"Ada","last_name":"Lovelace","image_url":"https://img.example/ada.png","email_addresses":[]}}''\<close>

definition updated_json :: jsval where
  "updated_json =
     JObj [(''type'', JStr ''user.updated''),
           (''data'', JObj [(''id'', JStr ''user_1''), (''first_name'', JStr ''Ada''),
                            (''last_name'', JStr ''Lovelace''),
                            (''image_url'', JStr ''https://img.example/ada.png''),
                            (''email_addresses'', JArr [])])]"

definition updated_event :: webhook_event where
  "updated_event =
     \<lparr>type = ''user.updated'',
      data = \<lparr>id' = ''user_1'', first_name = Str ''Ada'', last_name = Str ''Lovelace'',
              image_url = ''https://img.example/ada.png'', email_addresses = []\<rparr>\<rparr>"

definition deleted_raw :: string where
  \<open>deleted_raw = ''{"type":"user.deleted","data":{"id":"user_1","deleted":true}}''\<close>

definition deleted_json :: jsval where
  "deleted_json =
     JObj [(''type'', JStr ''user.deleted''),
           (''data'', JObj [(''id'', JStr ''user_1''), (''deleted'', JBool True)])]"

definition deleted_event :: webhook_event where
  "deleted_event =
     \<lparr>type = ''user.deleted'',
      data = \<lparr>id' = ''user_1'', first_name = Undefined, last_name = Undefined,
              image_url = [], email_addresses = []\<rparr>\<rparr>"

definition plan_raw :: string where
  \<open>plan_raw = ''{"user_id": "u1"}''\<close>

definition plan_json :: jsval where
  "plan_json = JObj [(''user_id'', JStr ''u1'')]"

definition unnamed_plan_raw :: string where
  \<open>unnamed_plan_raw = ''{"user_id":"u1","name":""}''\<close>

definition unnamed_plan_json :: jsval where
  "unnamed_plan_json = JObj [(''user_id'', JStr ''u1''), (''name'', JStr [])]"

definition generated_raw :: string where
  \<open>generated_raw = ''{"success":true,"data":{"success":true,"diet_plan":"D","workout_plan":"W"}}''\<close>

definition generated_json :: jsval where
  "generated_json =
     JObj [(''success'', JBool True),
           (''data'', JObj [(''success'', JBool True), (''diet_plan'', JStr ''D''),
                            (''workout_plan'', JStr ''W'')])]"

definition failed_raw :: string where
  \<open>failed_raw = ''{"success":false}''\<close>

definition failed_json :: jsval where
  "failed_json = JObj [(''success'', JBool False)]"

definition sample_documents :: "(string \<times> jsval) list" where
  "sample_documents =
     [(created_raw, created_json), (updated_raw, updated_json), (deleted_raw, deleted_json),
      (plan_raw, plan_json), (unnamed_plan_raw, unnamed_plan_json), (''null'', JNull),
      (generated_raw, generated_json), (failed_raw, failed_json)]"

definition not_json :: thrown where
  "not_json = ErrorInstance ''SyntaxError'' ''Unexpected token''"

definition sample_parse :: "string \<Rightarrow> thrown + jsval" where
  "sample_parse s = (case map_of sample_documents s of Some v \<Rightarrow> Inr v | None \<Rightarrow> Inl not_json)"

definition no_matching_signature :: thrown where
  "no_matching_signature = ErrorInstance ''WebhookVerificationError'' ''No matching signature found''"

definition sample_events :: "(string \<times> webhook_event) list" where
  "sample_events =
     [(sample_stringify created_json, created_event),
      (sample_stringify updated_json, updated_event),
      (sample_stringify deleted_json, deleted_event)]"

definition sample_verify :: "string \<Rightarrow> string \<Rightarrow> string \<Rightarrow> string \<Rightarrow> string \<Rightarrow> thrown + webhook_event" where
  "sample_verify secret b i t s =
     (if s = ''v1,valid''
      then (case map_of sample_events b of Some evt \<Rightarrow> Inr evt | None \<Rightarrow> Inl no_matching_signature)
      else Inl no_matching_signature)"

definition sample_world :: world where
  "sample_world =
     \<lparr>CLERK_WEBHOOK_SECRET = Some ''whsec_c2VjcmV0'',
      JSON_parse = sample_parse,
      JSON_stringify = sample_stringify,
      Webhook_new = (\<lambda>secret. None),
      Webhook_verify = sample_verify,
      runMutation = (\<lambda>m args. Inr JNull),
      fetch = (\<lambda>url sent. Inl (ErrorInstance ''TypeError'' ''fetch failed''))\<rparr>"

text \<open>The sample world with a given upstream reply and a given result of the mutation.\<close>

definition plan_world :: "thrown + nat \<times> string \<Rightarrow> thrown + jsval \<Rightarrow> world" where
  "plan_world reply saved = sample_world\<lparr>fetch := (\<lambda>url sent. reply), runMutation := (\<lambda>m args. saved)\<rparr>"

definition svix_request :: "string \<Rightarrow> string \<Rightarrow> request" where
  "svix_request signature b =
     \<lparr>headers = [''svix-id'' \<mapsto> ''msg_1'', ''svix-timestamp'' \<mapsto> ''1700000000'',
                 ''svix-signature'' \<mapsto> signature],
      body = b\<rparr>"

definition unsigned_request :: request where
  "unsigned_request =
     \<lparr>headers = [''svix-id'' \<mapsto> ''msg_1'', ''svix-timestamp'' \<mapsto> ''1700000000''],
      body = created_raw\<rparr>"

definition plan_request :: "string \<Rightarrow> request" where
  "plan_request b = \<lparr>headers = [''content-type'' \<mapsto> ''application/json''], body = b\<rparr>"

text \<open>The sample world without the webhook secret.\<close>

definition unconfigured_world :: world where
  "unconfigured_world = sample_world\<lparr>CLERK_WEBHOOK_SECRET := None\<rparr>"

text \<open>What a failing mutation throws in the examples.\<close>

definition server_error :: thrown where
  "server_error = ErrorInstance ''Error'' ''Server Error''"

section \<open>Auxiliary facts\<close>

subsection \<open>Trimming\<close>

text \<open>A trimmed string neither starts nor ends with white space, and trimming it again changes nothing.\<close>

lemma trim_empty: "trim [] = []"
  by (simp add: trim_def)

lemma trim_Nil:
  assumes "dropWhile is_ws s = []"
  shows "trim s = []"
  unfolding trim_def assms by simp

lemma trim_Cons:
  "dropWhile is_ws s = c # cs \<Longrightarrow> trim s = c # rev (dropWhile is_ws (rev cs))"
proof -
  assume d: "dropWhile is_ws s = c # cs"
  then have "\<not> is_ws c"
    using hd_dropWhile [of is_ws s] by simp
  then show ?thesis
    using d by (simp add: trim_def dropWhile_append3)
qed

lemma trim_no_leading_space: "trim s = c # cs \<Longrightarrow> \<not> is_ws c"
proof (cases "dropWhile is_ws s")
  case Nil
  assume "trim s = c # cs"
  with Nil show ?thesis by (simp add: trim_Nil)
next
  case (Cons d ds)
  assume "trim s = c # cs"
  with Cons have "c = d" by (simp add: trim_Cons)
  moreover from Cons have "\<not> is_ws d"
    using hd_dropWhile [of is_ws s] by simp
  ultimately show ?thesis by simp
qed

lemma trim_no_trailing_space: "trim s \<noteq> [] \<Longrightarrow> \<not> is_ws (last (trim s))"
proof -
  assume "trim s \<noteq> []"
  then have n: "dropWhile is_ws (rev (dropWhile is_ws s)) \<noteq> []"
    by (simp add: trim_def)
  then have "\<not> is_ws (hd (dropWhile is_ws (rev (dropWhile is_ws s))))"
    by (rule hd_dropWhile)
  with n show ?thesis
    by (simp add: trim_def last_rev)
qed

lemma trim_clean:
  "s \<noteq> [] \<Longrightarrow> \<not> is_ws (hd s) \<Longrightarrow> \<not> is_ws (last s) \<Longrightarrow> trim s = s"
proof -
  assume s: "s \<noteq> []" and h: "\<not> is_ws (hd s)" and l: "\<not> is_ws (last s)"
  from s h have "dropWhile is_ws s = s"
    by (cases s) simp_all
  moreover from s l have "dropWhile is_ws (rev s) = rev s"
    by (cases "rev s") (simp_all add: last_rev [symmetric] hd_rev)
  ultimately show ?thesis by (simp add: trim_def)
qed

lemma trim_idem: "trim (trim s) = trim s"
proof (cases "trim s")
  case Nil
  then show ?thesis by (simp add: trim_empty)
next
  case (Cons c cs)
  then have "trim s \<noteq> []" by simp
  moreover from Cons have "\<not> is_ws (hd (trim s))"
    using trim_no_leading_space [of s c cs] by simp
  moreover have "\<not> is_ws (last (trim s))"
    using \<open>trim s \<noteq> []\<close> by (rule trim_no_trailing_space)
  ultimately show ?thesis by (rule trim_clean)
qed

subsection \<open>The webhook route\<close>

lemma mutations_append: "mutations (xs @ ys) = mutations xs @ mutations ys"
  by (induction xs rule: mutations.induct) simp_all

lemma verified_bodies_append: "verified_bodies (xs @ ys) = verified_bodies xs @ verified_bodies ys"
  by (induction xs rule: verified_bodies.induct) simp_all

lemma mutations_svix_reads: "mutations svix_reads = []"
  by (simp add: svix_reads_def)

lemma or_empty_missing: "or_empty v = missing_as_empty v"
  by (cases v) simp_all

lemma full_name_spec: "full_name d = spec_name (first_name d) (last_name d)"
  by (simp add: full_name_def spec_name_def or_empty_missing del: or_empty.simps)

lemma clerk_webhook_reaches_verify:
  "carries_svix w request secret i t s \<Longrightarrow>
     clerk_webhook w request = verify_and_dispatch w secret request i s t"
  by (simp add: clerk_webhook_def carries_svix_def Let_def)

lemma clerk_webhook_verified:
  assumes "carries_svix w request secret i t s"
    and "JSON_parse w (body request) = Inr payload"
    and "Webhook_new w secret = None"
    and "Webhook_verify w secret (JSON_stringify w payload) i t s = Inr evt"
  shows "clerk_webhook w request =
           (svix_reads @ [RequestJson, WebhookVerify (JSON_stringify w payload) i t s] @ fst (dispatch w evt),
            snd (dispatch w evt))"
  using assms by (simp add: clerk_webhook_reaches_verify verify_and_dispatch_def split: prod.splits)

lemma sync_branch_no_email:
  "email_addresses d = [] \<Longrightarrow>
     sync_branch w m failure d = ([], Some (Throws (cannot_read ''undefined'' ''email_address'')))"
  by (simp add: sync_branch_def)

lemma sync_branch_mutations:
  "email_addresses d = e # es \<Longrightarrow>
     mutations (fst (sync_branch w m failure d)) = [(m, user_args d (email_address e))]"
  by (simp add: sync_branch_def Let_def split: sum.splits)

lemma sync_branch_verified_bodies: "verified_bodies (fst (sync_branch w m failure d)) = []"
  by (simp add: sync_branch_def Let_def split: list.splits sum.splits)

lemma dispatch_verified_bodies: "verified_bodies (fst (dispatch w evt)) = []"
  using sync_branch_verified_bodies [of w users_syncUser "''Error creating user''" "data evt"]
    sync_branch_verified_bodies [of w users_updateUser "''Error updating user''" "data evt"]
  by (auto simp add: dispatch_def Let_def verified_bodies_append split: prod.splits option.splits)

lemma dispatch_other:
  "type evt \<noteq> ''user.created'' \<Longrightarrow> type evt \<noteq> ''user.updated'' \<Longrightarrow>
     dispatch w evt = ([], Returns (Response ''Webhooks processed successfully'' 200 []))"
  by (simp add: dispatch_def)

lemma dispatch_no_email:
  "type evt = ''user.created'' \<or> type evt = ''user.updated'' \<Longrightarrow> email_addresses (data evt) = [] \<Longrightarrow>
     dispatch w evt = ([], Throws (cannot_read ''undefined'' ''email_address''))"
  by (auto simp add: dispatch_def sync_branch_no_email)

lemma dispatch_created_mutations:
  "type evt = ''user.created'' \<Longrightarrow>
     mutations (fst (dispatch w evt)) =
       (case email_addresses (data evt) of
          [] \<Rightarrow> []
        | e # es \<Rightarrow> [(users_syncUser, user_args (data evt) (email_address e))])"
  by (auto simp add: dispatch_def sync_branch_def Let_def split: list.splits sum.splits)

subsection \<open>The plan generation route\<close>

lemma get_prop_total: "\<not> nullish v \<Longrightarrow> get_prop v k = Inr (own v k)"
  by (cases v) (simp_all add: nullish_def)

lemma own_nullish: "nullish v \<Longrightarrow> own v k = JUndefined"
  by (auto simp add: nullish_def)

lemma truthy_not_nullish: "truthy v \<Longrightarrow> \<not> nullish v"
  by (auto simp add: nullish_def)

lemma double_success_nullish:
  "nullish result \<Longrightarrow> \<exists>e. double_success result = Inl e"
  by (auto simp add: nullish_def double_success_def)

lemma double_success_spec:
  "\<not> nullish result \<Longrightarrow> double_success result = Inr (spec_double_success result)"
proof -
  assume r: "\<not> nullish result"
  show ?thesis
  proof (cases "truthy (own result ''success'')")
    case False
    then show ?thesis using r by (simp add: double_success_def get_prop_total spec_double_success_def)
  next
    case s: True
    show ?thesis
    proof (cases "truthy (own result ''data'')")
      case False
      then have "\<not> truthy (own (own result ''data'') ''success'')"
        by (cases "own result ''data''") simp_all
      with False s r show ?thesis
        by (simp add: double_success_def get_prop_total spec_double_success_def)
    next
      case True
      with s r show ?thesis
        by (simp add: double_success_def get_prop_total truthy_not_nullish spec_double_success_def)
    qed
  qed
qed

text \<open>The condition of the source is the double-nested success of the specification.\<close>

lemma double_success_True_iff: "double_success result = Inr True \<longleftrightarrow> spec_double_success result"
proof (cases "nullish result")
  case True
  then have "\<not> spec_double_success result"
    by (simp add: spec_double_success_def own_nullish)
  moreover from True obtain e where "double_success result = Inl e"
    using double_success_nullish by blast
  ultimately show ?thesis by simp
next
  case False
  then show ?thesis by (simp add: double_success_spec)
qed

lemma spec_double_success_data: "spec_double_success result \<Longrightarrow> \<not> nullish (own result ''data'')"
  by (auto simp add: spec_double_success_def nullish_def)

lemma spec_double_success_object: "spec_double_success result \<Longrightarrow> \<exists>kvs. result = JObj kvs"
  by (cases result) (simp_all add: spec_double_success_def)

lemma planToSave_spec:
  assumes "\<not> nullish payload" and "spec_double_success result"
  shows "planToSave payload result = Inr (plan_record payload result)"
proof -
  from assms(2) obtain kvs where "result = JObj kvs"
    using spec_double_success_object by blast
  then have r: "\<not> nullish result" by (simp add: nullish_def)
  show ?thesis
    using assms r spec_double_success_data [OF assms(2)]
    by (simp add: planToSave_def get_prop_total plan_record_def or_default_def)
qed

lemma own_with_planId:
  "spec_double_success result \<Longrightarrow>
     own (with_planId result planId) k = (if k = ''planId'' then planId else own result k)"
proof -
  assume "spec_double_success result"
  then obtain kvs where "result = JObj kvs"
    using spec_double_success_object by blast
  then show ?thesis
    by (simp add: with_planId_def update_conv')
qed

lemma digit_value_digit: "d < 10 \<Longrightarrow> digit_value (digit d) = d"
proof -
  assume "d < 10"
  then have "d = 0 \<or> d = 1 \<or> d = 2 \<or> d = 3 \<or> d = 4 \<or> d = 5 \<or> d = 6 \<or> d = 7 \<or> d = 8 \<or> d = 9"
    by arith
  then show ?thesis
    by (elim disjE) (simp_all add: digit_def digit_value_def)
qed

lemma read_nat_snoc: "read_nat (s @ [c]) = 10 * read_nat s + digit_value c"
  by (simp add: read_nat_def)

lemma read_show_nat: "read_nat (show_nat n) = n"
proof (induction n rule: show_nat.induct)
  case (1 n)
  show ?case
  proof (cases "n < 10")
    case True
    then show ?thesis
      by (subst show_nat.simps) (simp add: read_nat_def digit_value_digit)
  next
    case False
    with 1 have "read_nat (show_nat (n div 10)) = n div 10" by simp
    with False show ?thesis
      by (subst show_nat.simps) (simp add: read_nat_snoc digit_value_digit)
  qed
qed

lemma try_generate_parsed:
  assumes "JSON_parse w (body request) = Inr payload"
    and "fetch w pythonApiUrl (JSON_stringify w payload) = Inr (st, responseText)"
    and "ok st"
    and "JSON_parse w responseText = Inr result"
  shows "try_generate w request =
           ([RequestJson, Fetch pythonApiUrl (JSON_stringify w payload)] @ fst (save_or_forward w payload result),
            snd (save_or_forward w payload result))"
  using assms by (simp add: try_generate_def Let_def split_beta)

lemma save_or_forward_saved:
  assumes "\<not> nullish payload" and "spec_double_success result"
    and "runMutation w plans_createPlan (plan_record payload result) = Inr planId"
  shows "save_or_forward w payload result =
           ([RunMutation plans_createPlan (plan_record payload result)],
            Inr (Response (JSON_stringify w (with_planId result planId)) 200 json_headers))"
  using assms
  by (simp add: save_or_forward_def double_success_True_iff [THEN iffD2] planToSave_spec)

lemma save_or_forward_not_success:
  assumes "\<not> spec_double_success result"
  shows "fst (save_or_forward w payload result) = []
         \<and> (if nullish result
             then (\<exists>e. snd (save_or_forward w payload result) = Inl e)
             else snd (save_or_forward w payload result) =
                    Inr (Response (JSON_stringify w result) 500 json_headers))"
proof (cases "nullish result")
  case True
  then obtain e where "double_success result = Inl e"
    using double_success_nullish by blast
  with True show ?thesis by (simp add: save_or_forward_def)
next
  case False
  with assms show ?thesis by (simp add: save_or_forward_def double_success_spec)
qed

lemma strict_success_is_double_success:
  "own result ''success'' = JBool True \<Longrightarrow> own (own result ''data'') ''success'' = JBool True \<Longrightarrow>
     spec_double_success result"
  by (simp add: spec_double_success_def)

subsection \<open>Evaluating the samples\<close>

lemmas sample_texts =
  created_raw_def updated_raw_def deleted_raw_def plan_raw_def unnamed_plan_raw_def
  generated_raw_def failed_raw_def

lemmas sample_values =
  created_json_def updated_json_def deleted_json_def plan_json_def unnamed_plan_json_def
  generated_json_def failed_json_def

lemma sample_world_fields:
  "CLERK_WEBHOOK_SECRET sample_world = Some ''whsec_c2VjcmV0''"
  "JSON_parse sample_world = sample_parse"
  "JSON_stringify sample_world = sample_stringify"
  "Webhook_new sample_world secret = None"
  "Webhook_verify sample_world = sample_verify"
  by (simp_all add: sample_world_def)

lemma plan_world_fields:
  "JSON_parse (plan_world reply saved) = sample_parse"
  "JSON_stringify (plan_world reply saved) = sample_stringify"
  "fetch (plan_world reply saved) url sent = reply"
  "runMutation (plan_world reply saved) m args = saved"
  by (simp_all add: plan_world_def sample_world_def)

lemma sample_parse_documents:
  "sample_parse created_raw = Inr created_json"
  "sample_parse updated_raw = Inr updated_json"
  "sample_parse deleted_raw = Inr deleted_json"
  "sample_parse plan_raw = Inr plan_json"
  "sample_parse unnamed_plan_raw = Inr unnamed_plan_json"
  "sample_parse ''null'' = Inr JNull"
  "sample_parse generated_raw = Inr generated_json"
  "sample_parse failed_raw = Inr failed_json"
  "sample_parse ''not json'' = Inl not_json"
  by (simp_all add: sample_parse_def sample_documents_def sample_texts)

lemma sample_stringify_events:
  \<open>sample_stringify created_json = ''{"type":"user.created","data":{"id":"user_1","first_name":null,"last_name":"Lovelace","image_url":"https://img.example/ada.png","email_addresses":[{"email_address":"ada@example.com"}]}}''\<close>
  \<open>sample_stringify updated_json = updated_raw\<close>
  \<open>sample_stringify deleted_json = deleted_raw\<close>
  by (simp_all add: sample_values sample_texts quote_def)

lemma sample_stringify_plans:
  \<open>sample_stringify plan_json = ''{"user_id":"u1"}''\<close>
  \<open>sample_stringify unnamed_plan_json = unnamed_plan_raw\<close>
  \<open>sample_stringify failed_json = failed_raw\<close>
  by (simp_all add: sample_values sample_texts quote_def)

lemma sample_verify_events:
  "sample_verify secret (sample_stringify created_json) i t ''v1,valid'' = Inr created_event"
  "sample_verify secret (sample_stringify updated_json) i t ''v1,valid'' = Inr updated_event"
  "sample_verify secret (sample_stringify deleted_json) i t ''v1,valid'' = Inr deleted_event"
  "sample_verify secret b i t ''v1,forged'' = Inl no_matching_signature"
  by (simp_all add: sample_verify_def sample_events_def sample_stringify_events sample_texts)

lemma carries_svix_sample:
  "carries_svix sample_world (svix_request signature b) ''whsec_c2VjcmV0'' ''msg_1'' ''1700000000'' signature
     \<longleftrightarrow> signature \<noteq> []"
  by (simp add: carries_svix_def svix_request_def sample_world_def)

lemma svix_request_body: "body (svix_request signature b) = b"
  by (simp add: svix_request_def)

lemma verified_sample:
  assumes "sample_parse b = Inr v" and "sample_verify ''whsec_c2VjcmV0'' (sample_stringify v) ''msg_1'' ''1700000000'' ''v1,valid'' = Inr evt"
  shows "carries_svix sample_world (svix_request ''v1,valid'' b) ''whsec_c2VjcmV0'' ''msg_1'' ''1700000000'' ''v1,valid''"
    and "JSON_parse sample_world (body (svix_request ''v1,valid'' b)) = Inr v"
    and "Webhook_new sample_world ''whsec_c2VjcmV0'' = None"
    and "Webhook_verify sample_world ''whsec_c2VjcmV0'' (JSON_stringify sample_world v)
           ''msg_1'' ''1700000000'' ''v1,valid'' = Inr evt"
  using assms by (simp_all add: carries_svix_sample sample_world_fields svix_request_body)

lemma plan_request_body: "body (plan_request b) = b"
  by (simp add: plan_request_def)

lemma ok_200: "ok 200"
  by (simp add: ok_def)

lemma not_ok_503: "\<not> ok 503"
  by (simp add: ok_def)

lemma show_nat_503: "show_nat 503 = ''503''"
  by (simp add: show_nat.simps digit_def)

lemma spec_double_success_samples:
  "spec_double_success generated_json" "\<not> spec_double_success failed_json" "\<not> spec_double_success JNull"
  by (simp_all add: spec_double_success_def generated_json_def failed_json_def)

lemma plan_record_samples:
  "plan_record plan_json generated_json =
     JObj [(''userId'', JStr ''u1''), (''dietPlan'', JStr ''D''), (''isActive'', JBool True),
           (''workoutPlan'', JStr ''W''), (''name'', JStr ''Fitness Plan'')]"
  "plan_record unnamed_plan_json generated_json =
     JObj [(''userId'', JStr ''u1''), (''dietPlan'', JStr ''D''), (''isActive'', JBool True),
           (''workoutPlan'', JStr ''W''), (''name'', JStr ''Fitness Plan'')]"
  by (simp_all add: plan_record_def plan_json_def unnamed_plan_json_def generated_json_def)

lemma sample_stringify_saved:
  \<open>sample_stringify (with_planId generated_json (JStr ''plan_1'')) =
     ''{"success":true,"data":{"success":true,"diet_plan":"D","workout_plan":"W"},"planId":"plan_1"}''\<close>
  by (simp add: with_planId_def generated_json_def quote_def)

lemma sample_stringify_errors:
  \<open>sample_stringify (error_payload server_error) = ''{"success":false,"error":"Server Error"}''\<close>
  \<open>sample_stringify (error_payload (cannot_read ''null'' ''user_id'')) =
     ''{"success":false,"error":"Cannot read properties of null (reading 'user_id')"}''\<close>
  \<open>sample_stringify (error_payload (cannot_read ''null'' ''success'')) =
     ''{"success":false,"error":"Cannot read properties of null (reading 'success')"}''\<close>
  \<open>sample_stringify (JObj [(''success'', JBool False),
                            (''error'', JStr (python_api_error 503 ''Service Unavailable''))]) =
     ''{"success":false,"error":"Python API error: 503 - Service Unavailable"}''\<close>
  by (simp_all add: error_payload_def server_error_def cannot_read_def quote_def
        python_api_error_def show_nat_503)

lemma save_or_forward_mutation_throws:
  assumes "\<not> nullish payload" and "spec_double_success result"
    and "runMutation w plans_createPlan (plan_record payload result) = Inl e"
  shows "save_or_forward w payload result =
           ([RunMutation plans_createPlan (plan_record payload result)], Inl e)"
  using assms
  by (simp add: save_or_forward_def double_success_True_iff [THEN iffD2] planToSave_spec)

lemma save_or_forward_null_payload:
  assumes "spec_double_success result"
  shows "save_or_forward w JNull result = ([], Inl (cannot_read ''null'' ''user_id''))"
  using assms
  by (simp add: save_or_forward_def double_success_True_iff [THEN iffD2] planToSave_def)

lemma generate_program_caught:
  "try_generate w request = (t, Inl e) \<Longrightarrow>
     generate_program w request =
       (t, Returns (Response (JSON_stringify w (error_payload e)) 500 json_headers))"
  by (simp add: generate_program_def)

lemma generate_program_returned:
  "try_generate w request = (t, Inr r) \<Longrightarrow> generate_program w request = (t, Returns r)"
  by (simp add: generate_program_def)

section \<open>C8: a missing webhook secret\<close>

text \<open>
  C8: if the webhook shared secret is absent from the environment (or empty), the webhook
  handler fails with its configuration error at the start of the request: it has read no
  header, parsed no body, verified no signature and run no mutation.
\<close>

theorem missing_secret_throws_first:
  "absent (CLERK_WEBHOOK_SECRET w) \<Longrightarrow> clerk_webhook w request = ([], Throws missing_secret)"
  by (simp add: clerk_webhook_def Let_def)

theorem missing_secret_throws_first_witness:
  "absent (CLERK_WEBHOOK_SECRET unconfigured_world)
   \<and> clerk_webhook unconfigured_world (svix_request ''v1,valid'' created_raw) = ([], Throws missing_secret)"
proof -
  have a: "absent (CLERK_WEBHOOK_SECRET unconfigured_world)"
    by (simp add: unconfigured_world_def)
  from missing_secret_throws_first [OF a] a show ?thesis by simp
qed

section \<open>C3: missing svix headers\<close>

text \<open>
  C3: for a webhook request in which at least one of the headers svix-id, svix-timestamp,
  svix-signature is absent (or empty) no mutation is run, neither syncUser nor updateUser,
  and with the webhook secret configured the request is answered with HTTP 400.
\<close>

theorem missing_header_400:
  assumes "absent (headers request ''svix-id'') \<or> absent (headers request ''svix-timestamp'')
           \<or> absent (headers request ''svix-signature'')"
  shows "mutations (fst (clerk_webhook w request)) = []
         \<and> (\<not> absent (CLERK_WEBHOOK_SECRET w) \<longrightarrow>
              clerk_webhook w request =
                (svix_reads, Returns (Response ''No svix headers found'' 400 [])))"
  using assms by (auto simp add: clerk_webhook_def Let_def mutations_svix_reads)

theorem missing_header_400_witness:
  "absent (headers unsigned_request ''svix-signature'')
   \<and> \<not> absent (CLERK_WEBHOOK_SECRET sample_world)
   \<and> mutations (fst (clerk_webhook sample_world unsigned_request)) = []
   \<and> clerk_webhook sample_world unsigned_request =
       (svix_reads, Returns (Response ''No svix headers found'' 400 []))"
proof -
  have h: "absent (headers unsigned_request ''svix-signature'')"
    by (simp add: unsigned_request_def)
  have s: "\<not> absent (CLERK_WEBHOOK_SECRET sample_world)"
    by (simp add: sample_world_fields)
  show ?thesis
    using missing_header_400 [of unsigned_request sample_world] s h by blast
qed

section \<open>C4: an invalid signature\<close>

text \<open>
  C4, as amended: a webhook request that carries the three svix headers, whose body parses
  as JSON and whose signature verification fails is answered with HTTP 400, whatever the
  parsed body is, and no mutation is run. The verification is run on the serialisation of
  the parsed body. A body that is not JSON never reaches verification, as the example after
  the witness shows: with a forged signature the handler throws instead of answering 400.
\<close>

theorem invalid_signature_400:
  assumes "carries_svix w request secret i t s"
    and "JSON_parse w (body request) = Inr payload"
    and "Webhook_new w secret = None"
    and "Webhook_verify w secret (JSON_stringify w payload) i t s = Inl err"
  shows "clerk_webhook w request =
           (svix_reads @ [RequestJson, WebhookVerify (JSON_stringify w payload) i t s],
            Returns (Response ''Error occurred'' 400 []))
         \<and> mutations (fst (clerk_webhook w request)) = []"
  using assms
  by (simp add: clerk_webhook_reaches_verify verify_and_dispatch_def mutations_append mutations_svix_reads)

theorem invalid_signature_400_witness:
  "carries_svix sample_world (svix_request ''v1,forged'' created_raw)
     ''whsec_c2VjcmV0'' ''msg_1'' ''1700000000'' ''v1,forged''
   \<and> JSON_parse sample_world (body (svix_request ''v1,forged'' created_raw)) = Inr created_json
   \<and> Webhook_new sample_world ''whsec_c2VjcmV0'' = None
   \<and> Webhook_verify sample_world ''whsec_c2VjcmV0'' (JSON_stringify sample_world created_json)
        ''msg_1'' ''1700000000'' ''v1,forged'' = Inl no_matching_signature
   \<and> snd (clerk_webhook sample_world (svix_request ''v1,forged'' created_raw)) =
       Returns (Response ''Error occurred'' 400 [])
   \<and> mutations (fst (clerk_webhook sample_world (svix_request ''v1,forged'' created_raw))) = []"
proof -
  have c: "carries_svix sample_world (svix_request ''v1,forged'' created_raw)
     ''whsec_c2VjcmV0'' ''msg_1'' ''1700000000'' ''v1,forged''"
    by (simp add: carries_svix_sample)
  have p: "JSON_parse sample_world (body (svix_request ''v1,forged'' created_raw)) = Inr created_json"
    by (simp add: sample_world_fields sample_parse_documents svix_request_body)
  have n: "Webhook_new sample_world ''whsec_c2VjcmV0'' = None"
    by (simp add: sample_world_fields)
  have v: "Webhook_verify sample_world ''whsec_c2VjcmV0'' (JSON_stringify sample_world created_json)
        ''msg_1'' ''1700000000'' ''v1,forged'' = Inl no_matching_signature"
    by (simp add: sample_world_fields sample_verify_events)
  show ?thesis
    using invalid_signature_400 [OF c p n v] c p n v by (simp add: mutations_append mutations_svix_reads)
qed

text \<open>
  A forged signature on a body that is not JSON: the handler throws while parsing.
\<close>

theorem invalid_signature_not_json_counterexample:
  "carries_svix sample_world (svix_request ''v1,forged'' ''not json'')
     ''whsec_c2VjcmV0'' ''msg_1'' ''1700000000'' ''v1,forged''
   \<and> Webhook_verify sample_world ''whsec_c2VjcmV0'' (body (svix_request ''v1,forged'' ''not json''))
        ''msg_1'' ''1700000000'' ''v1,forged'' = Inl no_matching_signature
   \<and> clerk_webhook sample_world (svix_request ''v1,forged'' ''not json'') =
       (svix_reads @ [RequestJson], Throws not_json)"
proof -
  have c: "carries_svix sample_world (svix_request ''v1,forged'' ''not json'')
     ''whsec_c2VjcmV0'' ''msg_1'' ''1700000000'' ''v1,forged''"
    by (simp add: carries_svix_sample)
  have p: "JSON_parse sample_world (body (svix_request ''v1,forged'' ''not json'')) = Inl not_json"
    by (simp add: sample_world_fields sample_parse_documents svix_request_body)
  have "clerk_webhook sample_world (svix_request ''v1,forged'' ''not json'') =
       (svix_reads @ [RequestJson], Throws not_json)"
    using clerk_webhook_reaches_verify [OF c] p by (simp add: verify_and_dispatch_def)
  with c show ?thesis
    by (simp add: sample_world_fields sample_verify_events svix_request_body)
qed

section \<open>C5: the name of a created user\<close>

text \<open>
  C5: for a verified event of type user.created, the name passed to the syncUser mutation
  is the trim of first name, one space and last name, where a first or last name that is
  null or undefined counts as the empty string; and the mutation is run whenever the event
  has an email address.
\<close>

theorem created_name_is_trimmed_concatenation:
  assumes "carries_svix w request secret i t s"
    and "JSON_parse w (body request) = Inr payload"
    and "Webhook_new w secret = None"
    and "Webhook_verify w secret (JSON_stringify w payload) i t s = Inr evt"
    and "type evt = ''user.created''"
  shows "(\<forall>args. (users_syncUser, args) \<in> set (mutations (fst (clerk_webhook w request))) \<longrightarrow>
            own args ''name'' = JStr (spec_name (first_name (data evt)) (last_name (data evt))))
         \<and> (email_addresses (data evt) \<noteq> [] \<longrightarrow>
              (\<exists>args. mutations (fst (clerk_webhook w request)) = [(users_syncUser, args)]))"
proof -
  have m: "mutations (fst (clerk_webhook w request)) =
             (case email_addresses (data evt) of
                [] \<Rightarrow> []
              | e # es \<Rightarrow> [(users_syncUser, user_args (data evt) (email_address e))])"
    using assms
    by (simp add: clerk_webhook_verified mutations_append mutations_svix_reads dispatch_created_mutations)
  have n: "own (user_args (data evt) email) ''name'' =
             JStr (spec_name (first_name (data evt)) (last_name (data evt)))" for email
    by (simp add: user_args_def full_name_spec)
  show ?thesis
    using m n by (auto split: list.splits)
qed

theorem created_name_is_trimmed_concatenation_witness:
  "carries_svix sample_world (svix_request ''v1,valid'' created_raw)
     ''whsec_c2VjcmV0'' ''msg_1'' ''1700000000'' ''v1,valid''
   \<and> JSON_parse sample_world (body (svix_request ''v1,valid'' created_raw)) = Inr created_json
   \<and> Webhook_new sample_world ''whsec_c2VjcmV0'' = None
   \<and> Webhook_verify sample_world ''whsec_c2VjcmV0'' (JSON_stringify sample_world created_json)
        ''msg_1'' ''1700000000'' ''v1,valid'' = Inr created_event
   \<and> type created_event = ''user.created''
   \<and> first_name (data created_event) = Null
   \<and> last_name (data created_event) = Str ''Lovelace''
   \<and> mutations (fst (clerk_webhook sample_world (svix_request ''v1,valid'' created_raw))) =
       [(users_syncUser,
         JObj [(''email'', JStr ''ada@example.com''), (''name'', JStr ''Lovelace''),
               (''image'', JStr ''https://img.example/ada.png''), (''clerkId'', JStr ''user_1'')])]
   \<and> spec_name Null (Str ''Lovelace'') = ''Lovelace''"
proof -
  note v = verified_sample [OF sample_parse_documents(1) sample_verify_events(1)]
  have t: "type created_event = ''user.created''"
    by (simp add: created_event_def)
  have n: "spec_name Null (Str ''Lovelace'') = ''Lovelace''"
    by (simp add: spec_name_def trim_def is_ws_def)
  have m: "mutations (fst (clerk_webhook sample_world (svix_request ''v1,valid'' created_raw))) =
       [(users_syncUser,
         JObj [(''email'', JStr ''ada@example.com''), (''name'', JStr ''Lovelace''),
               (''image'', JStr ''https://img.example/ada.png''), (''clerkId'', JStr ''user_1'')])]"
    using v t n
    by (simp add: clerk_webhook_verified mutations_append mutations_svix_reads
          dispatch_created_mutations user_args_def full_name_spec created_event_def)
  show ?thesis
    using created_name_is_trimmed_concatenation [OF v t] v t n m
    by (simp add: created_event_def)
qed

section \<open>C7: other event types\<close>

text \<open>
  C7: for a verified event whose type is neither user.created nor user.updated the handler
  runs no mutation and answers HTTP 200 with its success message.
\<close>

theorem other_event_is_noop:
  assumes "carries_svix w request secret i t s"
    and "JSON_parse w (body request) = Inr payload"
    and "Webhook_new w secret = None"
    and "Webhook_verify w secret (JSON_stringify w payload) i t s = Inr evt"
    and "type evt \<noteq> ''user.created''" and "type evt \<noteq> ''user.updated''"
  shows "snd (clerk_webhook w request) = Returns (Response ''Webhooks processed successfully'' 200 [])
         \<and> mutations (fst (clerk_webhook w request)) = []"
  using assms
  by (simp add: clerk_webhook_verified dispatch_other mutations_append mutations_svix_reads)

theorem other_event_is_noop_witness:
  "carries_svix sample_world (svix_request ''v1,valid'' deleted_raw)
     ''whsec_c2VjcmV0'' ''msg_1'' ''1700000000'' ''v1,valid''
   \<and> JSON_parse sample_world (body (svix_request ''v1,valid'' deleted_raw)) = Inr deleted_json
   \<and> Webhook_new sample_world ''whsec_c2VjcmV0'' = None
   \<and> Webhook_verify sample_world ''whsec_c2VjcmV0'' (JSON_stringify sample_world deleted_json)
        ''msg_1'' ''1700000000'' ''v1,valid'' = Inr deleted_event
   \<and> type deleted_event = ''user.deleted''
   \<and> snd (clerk_webhook sample_world (svix_request ''v1,valid'' deleted_raw)) =
       Returns (Response ''Webhooks processed successfully'' 200 [])
   \<and> mutations (fst (clerk_webhook sample_world (svix_request ''v1,valid'' deleted_raw))) = []"
proof -
  note v = verified_sample [OF sample_parse_documents(3) sample_verify_events(3)]
  have t: "type deleted_event = ''user.deleted''"
    by (simp add: deleted_event_def)
  then have t': "type deleted_event \<noteq> ''user.created''" "type deleted_event \<noteq> ''user.updated''"
    by simp_all
  show ?thesis
    using other_event_is_noop [OF v t'] v t by blast
qed

section \<open>C9: an event without email addresses\<close>

text \<open>
  C9: for a verified event of type user.created or user.updated whose list of email
  addresses is empty, the handler returns no response at all (so neither 400 nor 500): the
  read of element 0 yields undefined, the property read on it throws a TypeError that
  nothing catches, and no mutation has been run.
\<close>

theorem empty_email_list_throws:
  assumes "carries_svix w request secret i t s"
    and "JSON_parse w (body request) = Inr payload"
    and "Webhook_new w secret = None"
    and "Webhook_verify w secret (JSON_stringify w payload) i t s = Inr evt"
    and "type evt = ''user.created'' \<or> type evt = ''user.updated''"
    and "email_addresses (data evt) = []"
  shows "snd (clerk_webhook w request) = Throws (cannot_read ''undefined'' ''email_address'')
         \<and> mutations (fst (clerk_webhook w request)) = []"
  using assms
  by (simp add: clerk_webhook_verified dispatch_no_email mutations_append mutations_svix_reads)

theorem empty_email_list_throws_witness:
  "carries_svix sample_world (svix_request ''v1,valid'' updated_raw)
     ''whsec_c2VjcmV0'' ''msg_1'' ''1700000000'' ''v1,valid''
   \<and> JSON_parse sample_world (body (svix_request ''v1,valid'' updated_raw)) = Inr updated_json
   \<and> Webhook_new sample_world ''whsec_c2VjcmV0'' = None
   \<and> Webhook_verify sample_world ''whsec_c2VjcmV0'' (JSON_stringify sample_world updated_json)
        ''msg_1'' ''1700000000'' ''v1,valid'' = Inr updated_event
   \<and> type updated_event = ''user.updated''
   \<and> email_addresses (data updated_event) = []
   \<and> snd (clerk_webhook sample_world (svix_request ''v1,valid'' updated_raw)) =
       Throws (cannot_read ''undefined'' ''email_address'')
   \<and> mutations (fst (clerk_webhook sample_world (svix_request ''v1,valid'' updated_raw))) = []"
proof -
  note v = verified_sample [OF sample_parse_documents(2) sample_verify_events(2)]
  have t: "type updated_event = ''user.updated''"
    by (simp add: updated_event_def)
  then have t': "type updated_event = ''user.created'' \<or> type updated_event = ''user.updated''"
    by simp
  have e: "email_addresses (data updated_event) = []"
    by (simp add: updated_event_def)
  show ?thesis
    using empty_email_list_throws [OF v t' e] v t e by blast
qed

section \<open>C10: the body is parsed before the signature is verified\<close>

text \<open>
  C10: a webhook request that carries the three svix headers and whose body is not valid
  JSON makes the handler throw while it parses the body, before any verification, instead
  of answering HTTP 400; and whenever verification runs, the body it is given is the
  serialisation \<^verbatim>\<open>JSON.stringify\<close> of the parsed body, not the text of the request.
\<close>

theorem body_parsed_before_verification:
  "(carries_svix w request secret i t s \<and> JSON_parse w (body request) = Inl e \<longrightarrow>
      clerk_webhook w request = (svix_reads @ [RequestJson], Throws e))
   \<and> (b \<in> set (verified_bodies (fst (clerk_webhook w request))) \<longrightarrow>
        (\<exists>payload. JSON_parse w (body request) = Inr payload \<and> b = JSON_stringify w payload))"
proof
  show "carries_svix w request secret i t s \<and> JSON_parse w (body request) = Inl e \<longrightarrow>
          clerk_webhook w request = (svix_reads @ [RequestJson], Throws e)"
    using clerk_webhook_reaches_verify [of w request secret i t s]
    by (simp add: verify_and_dispatch_def)
next
  have v: "set (verified_bodies (fst (verify_and_dispatch w sec request i' s' t'))) \<subseteq>
             (case JSON_parse w (body request) of Inl x \<Rightarrow> {} | Inr payload \<Rightarrow> {JSON_stringify w payload})"
    for sec i' s' t'
    by (auto simp add: verify_and_dispatch_def Let_def verified_bodies_append svix_reads_def
          dispatch_verified_bodies split_beta split: sum.splits option.splits)
  have "set (verified_bodies (fst (clerk_webhook w request))) \<subseteq>
          (case JSON_parse w (body request) of Inl x \<Rightarrow> {} | Inr payload \<Rightarrow> {JSON_stringify w payload})"
    unfolding clerk_webhook_def Let_def
    using v by (auto simp add: svix_reads_def)
  then show "b \<in> set (verified_bodies (fst (clerk_webhook w request))) \<longrightarrow>
          (\<exists>payload. JSON_parse w (body request) = Inr payload \<and> b = JSON_stringify w payload)"
    by (auto split: sum.splits)
qed

theorem body_parsed_before_verification_witness:
  "carries_svix sample_world (svix_request ''v1,valid'' ''not json'')
     ''whsec_c2VjcmV0'' ''msg_1'' ''1700000000'' ''v1,valid''
   \<and> JSON_parse sample_world (body (svix_request ''v1,valid'' ''not json'')) = Inl not_json
   \<and> clerk_webhook sample_world (svix_request ''v1,valid'' ''not json'') =
       (svix_reads @ [RequestJson], Throws not_json)
   \<and> verified_bodies (fst (clerk_webhook sample_world (svix_request ''v1,valid'' created_raw))) =
       [sample_stringify created_json]
   \<and> JSON_parse sample_world (body (svix_request ''v1,valid'' created_raw)) = Inr created_json
   \<and> sample_stringify created_json = JSON_stringify sample_world created_json
   \<and> sample_stringify created_json \<noteq> body (svix_request ''v1,valid'' created_raw)"
proof -
  have c: "carries_svix sample_world (svix_request ''v1,valid'' ''not json'')
     ''whsec_c2VjcmV0'' ''msg_1'' ''1700000000'' ''v1,valid''"
    by (simp add: carries_svix_sample)
  have p: "JSON_parse sample_world (body (svix_request ''v1,valid'' ''not json'')) = Inl not_json"
    by (simp add: sample_world_fields sample_parse_documents svix_request_body)
  note v = verified_sample [OF sample_parse_documents(1) sample_verify_events(1)]
  have b: "verified_bodies (fst (clerk_webhook sample_world (svix_request ''v1,valid'' created_raw))) =
       [sample_stringify created_json]"
    using v
    by (simp add: clerk_webhook_verified verified_bodies_append dispatch_verified_bodies
          svix_reads_def sample_world_fields)
  have d: "sample_stringify created_json \<noteq> body (svix_request ''v1,valid'' created_raw)"
    by (simp add: svix_request_body sample_stringify_events created_raw_def)
  from body_parsed_before_verification
         [of sample_world "svix_request ''v1,valid'' ''not json''" "''whsec_c2VjcmV0''" "''msg_1''"
             "''1700000000''" "''v1,valid''" not_json "sample_stringify created_json"]
       body_parsed_before_verification
         [of sample_world "svix_request ''v1,valid'' created_raw" "''whsec_c2VjcmV0''" "''msg_1''"
             "''1700000000''" "''v1,valid''" not_json "sample_stringify created_json"]
       c p v b d
  show ?thesis by (simp add: sample_world_fields)
qed

section \<open>C1: a generated plan is saved\<close>

text \<open>
  C1, as amended: when the request body parses to a value other than null, the external
  service answers 2xx with a body whose parsed result has the double-nested success, and
  the createPlan mutation returns an id, the handler has run createPlan exactly once, on
  the record with userId the \<^verbatim>\<open>user_id\<close> of the request, dietPlan and workoutPlan those of
  \<^verbatim>\<open>result.data\<close>, isActive true, and name the \<^verbatim>\<open>name\<close> of the request when that is
  truthy and "Fitness Plan" otherwise; and it answers HTTP 200 with the serialisation of
  the parsed result extended with that id under the key planId.
\<close>

theorem success_persists_plan:
  assumes "JSON_parse w (body request) = Inr payload" and "\<not> nullish payload"
    and "fetch w pythonApiUrl (JSON_stringify w payload) = Inr (st, responseText)"
    and "ok st"
    and "JSON_parse w responseText = Inr result"
    and "spec_double_success result"
    and "runMutation w plans_createPlan (plan_record payload result) = Inr planId"
  shows "generate_program w request =
           ([RequestJson, Fetch pythonApiUrl (JSON_stringify w payload),
             RunMutation plans_createPlan (plan_record payload result)],
            Returns (Response (JSON_stringify w (with_planId result planId)) 200 json_headers))
         \<and> own (with_planId result planId) ''planId'' = planId
         \<and> (\<forall>k. k \<noteq> ''planId'' \<longrightarrow> own (with_planId result planId) k = own result k)"
proof -
  have "try_generate w request =
          ([RequestJson, Fetch pythonApiUrl (JSON_stringify w payload),
            RunMutation plans_createPlan (plan_record payload result)],
           Inr (Response (JSON_stringify w (with_planId result planId)) 200 json_headers))"
    using assms by (simp add: try_generate_parsed save_or_forward_saved)
  then show ?thesis
    using assms(6) by (simp add: generate_program_def own_with_planId)
qed

theorem success_persists_plan_witness:
  \<open>JSON_parse (plan_world (Inr (200, generated_raw)) (Inr (JStr ''plan_1''))) (body (plan_request plan_raw))
     = Inr plan_json
   \<and> \<not> nullish plan_json
   \<and> fetch (plan_world (Inr (200, generated_raw)) (Inr (JStr ''plan_1''))) pythonApiUrl
        (JSON_stringify (plan_world (Inr (200, generated_raw)) (Inr (JStr ''plan_1''))) plan_json)
     = Inr (200, generated_raw)
   \<and> ok 200
   \<and> JSON_parse (plan_world (Inr (200, generated_raw)) (Inr (JStr ''plan_1''))) generated_raw
     = Inr generated_json
   \<and> spec_double_success generated_json
   \<and> runMutation (plan_world (Inr (200, generated_raw)) (Inr (JStr ''plan_1''))) plans_createPlan
        (plan_record plan_json generated_json) = Inr (JStr ''plan_1'')
   \<and> generate_program (plan_world (Inr (200, generated_raw)) (Inr (JStr ''plan_1''))) (plan_request plan_raw) =
       ([RequestJson, Fetch pythonApiUrl ''{"user_id":"u1"}'',
         RunMutation plans_createPlan
           (JObj [(''userId'', JStr ''u1''), (''dietPlan'', JStr ''D''), (''isActive'', JBool True),
                  (''workoutPlan'', JStr ''W''), (''name'', JStr ''Fitness Plan'')])],
        Returns (Response ''{"success":true,"data":{"success":true,"diet_plan":"D","workout_plan":"W"},"planId":"plan_1"}''
                   200 json_headers))\<close>
proof -
  let ?w = "plan_world (Inr (200, generated_raw)) (Inr (JStr ''plan_1''))"
  have p: "JSON_parse ?w (body (plan_request plan_raw)) = Inr plan_json"
    by (simp add: plan_world_fields plan_request_body sample_parse_documents)
  have n: "\<not> nullish plan_json"
    by (simp add: nullish_def plan_json_def)
  have f: "fetch ?w pythonApiUrl (JSON_stringify ?w plan_json) = Inr (200, generated_raw)"
    by (simp add: plan_world_fields)
  have r: "JSON_parse ?w generated_raw = Inr generated_json"
    by (simp add: plan_world_fields sample_parse_documents)
  have m: "runMutation ?w plans_createPlan (plan_record plan_json generated_json) = Inr (JStr ''plan_1'')"
    by (simp add: plan_world_fields)
  show ?thesis
    using success_persists_plan [OF p n f ok_200 r spec_double_success_samples(1) m]
      p n f ok_200 r spec_double_success_samples(1) m
    by (simp add: plan_world_fields plan_record_samples sample_stringify_plans
          sample_stringify_saved)
qed

text \<open>
  Three requests at which the claim as first stated fails, each with an upstream answer of
  200 and double success: the mutation throws, and the answer is 500; the request has the
  name "" and the record is saved under "Fitness Plan"; the request body is null, and the
  answer is 500 with no mutation run.
\<close>

theorem success_persists_plan_counterexample:
  \<open>JSON_parse (plan_world (Inr (200, generated_raw)) (Inl server_error)) generated_raw = Inr generated_json
   \<and> own generated_json ''success'' = JBool True
   \<and> own (own generated_json ''data'') ''success'' = JBool True
   \<and> snd (generate_program (plan_world (Inr (200, generated_raw)) (Inl server_error)) (plan_request plan_raw)) =
       Returns (Response ''{"success":false,"error":"Server Error"}'' 500 json_headers)
   \<and> own unnamed_plan_json ''name'' = JStr []
   \<and> mutations (fst (generate_program (plan_world (Inr (200, generated_raw)) (Inr (JStr ''plan_1'')))
                        (plan_request unnamed_plan_raw))) =
       [(plans_createPlan,
         JObj [(''userId'', JStr ''u1''), (''dietPlan'', JStr ''D''), (''isActive'', JBool True),
               (''workoutPlan'', JStr ''W''), (''name'', JStr ''Fitness Plan'')])]
   \<and> generate_program (plan_world (Inr (200, generated_raw)) (Inr (JStr ''plan_1''))) (plan_request ''null'') =
       ([RequestJson, Fetch pythonApiUrl ''null''],
        Returns (Response ''{"success":false,"error":"Cannot read properties of null (reading 'user_id')"}''
                   500 json_headers))\<close>
proof -
  let ?failing = "plan_world (Inr (200, generated_raw)) (Inl server_error)"
  let ?saving = "plan_world (Inr (200, generated_raw)) (Inr (JStr ''plan_1''))"
  note g = spec_double_success_samples(1)
  have parsed: "JSON_parse ?failing generated_raw = Inr generated_json"
    by (simp add: plan_world_fields sample_parse_documents)
  have flags: "own generated_json ''success'' = JBool True"
    "own (own generated_json ''data'') ''success'' = JBool True"
    by (simp_all add: generated_json_def)
  have "try_generate ?failing (plan_request plan_raw) =
          ([RequestJson, Fetch pythonApiUrl (sample_stringify plan_json),
            RunMutation plans_createPlan (plan_record plan_json generated_json)],
           Inl server_error)"
    using try_generate_parsed [of ?failing "plan_request plan_raw" plan_json 200 generated_raw generated_json]
      save_or_forward_mutation_throws [of plan_json generated_json ?failing server_error] g
    by (simp add: plan_world_fields plan_request_body sample_parse_documents ok_200 nullish_def
          plan_json_def)
  then have a: \<open>snd (generate_program ?failing (plan_request plan_raw)) =
       Returns (Response ''{"success":false,"error":"Server Error"}'' 500 json_headers)\<close>
    by (simp add: generate_program_caught plan_world_fields sample_stringify_errors)
  have name: "own unnamed_plan_json ''name'' = JStr []"
    by (simp add: unnamed_plan_json_def)
  have "try_generate ?saving (plan_request unnamed_plan_raw) =
          ([RequestJson, Fetch pythonApiUrl (sample_stringify unnamed_plan_json),
            RunMutation plans_createPlan (plan_record unnamed_plan_json generated_json)],
           Inr (Response (sample_stringify (with_planId generated_json (JStr ''plan_1''))) 200 json_headers))"
    using try_generate_parsed [of ?saving "plan_request unnamed_plan_raw" unnamed_plan_json 200
        generated_raw generated_json]
      save_or_forward_saved [of unnamed_plan_json generated_json ?saving "JStr ''plan_1''"] g
    by (simp add: plan_world_fields plan_request_body sample_parse_documents ok_200 nullish_def
          unnamed_plan_json_def)
  then have b: "mutations (fst (generate_program ?saving (plan_request unnamed_plan_raw))) =
       [(plans_createPlan,
         JObj [(''userId'', JStr ''u1''), (''dietPlan'', JStr ''D''), (''isActive'', JBool True),
               (''workoutPlan'', JStr ''W''), (''name'', JStr ''Fitness Plan'')])]"
    by (simp add: generate_program_returned plan_record_samples)
  have "try_generate ?saving (plan_request ''null'') =
          ([RequestJson, Fetch pythonApiUrl (sample_stringify JNull)],
           Inl (cannot_read ''null'' ''user_id''))"
    using try_generate_parsed [of ?saving "plan_request ''null''" JNull 200 generated_raw generated_json]
      save_or_forward_null_payload [of generated_json ?saving] g
    by (simp add: plan_world_fields plan_request_body sample_parse_documents ok_200)
  then have c: \<open>generate_program ?saving (plan_request ''null'') =
       ([RequestJson, Fetch pythonApiUrl ''null''],
        Returns (Response ''{"success":false,"error":"Cannot read properties of null (reading 'user_id')"}''
                   500 json_headers))\<close>
    by (simp add: generate_program_caught plan_world_fields sample_stringify_errors)
  show ?thesis
    using parsed flags a name b c by simp
qed

section \<open>C2: the upstream result is not a success\<close>

text \<open>
  C2, as amended: when the external service answers 2xx with a body whose parsed result
  does not have the double-nested success, the handler runs no mutation and answers
  HTTP 500; the body of the answer is the serialisation of the parsed result whenever that
  result is not null.
\<close>

theorem no_success_500:
  assumes "JSON_parse w (body request) = Inr payload"
    and "fetch w pythonApiUrl (JSON_stringify w payload) = Inr (st, responseText)"
    and "ok st"
    and "JSON_parse w responseText = Inr result"
    and "\<not> spec_double_success result"
  shows "mutations (fst (generate_program w request)) = []
         \<and> (\<exists>b. snd (generate_program w request) = Returns (Response b 500 json_headers))
         \<and> (\<not> nullish result \<longrightarrow>
              snd (generate_program w request) =
                Returns (Response (JSON_stringify w result) 500 json_headers))"
proof -
  note t = try_generate_parsed [OF assms(1-4)]
  note s = save_or_forward_not_success [OF assms(5), of w payload]
  show ?thesis
  proof (cases "nullish result")
    case True
    with s obtain e where "snd (save_or_forward w payload result) = Inl e" by auto
    with s t show ?thesis by (simp add: generate_program_def True)
  next
    case False
    with s t show ?thesis by (simp add: generate_program_def)
  qed
qed

theorem no_success_500_witness:
  \<open>JSON_parse (plan_world (Inr (200, failed_raw)) (Inr (JStr ''plan_1''))) (body (plan_request plan_raw))
     = Inr plan_json
   \<and> fetch (plan_world (Inr (200, failed_raw)) (Inr (JStr ''plan_1''))) pythonApiUrl
        (JSON_stringify (plan_world (Inr (200, failed_raw)) (Inr (JStr ''plan_1''))) plan_json)
     = Inr (200, failed_raw)
   \<and> ok 200
   \<and> JSON_parse (plan_world (Inr (200, failed_raw)) (Inr (JStr ''plan_1''))) failed_raw = Inr failed_json
   \<and> \<not> spec_double_success failed_json
   \<and> \<not> nullish failed_json
   \<and> mutations (fst (generate_program (plan_world (Inr (200, failed_raw)) (Inr (JStr ''plan_1'')))
                        (plan_request plan_raw))) = []
   \<and> snd (generate_program (plan_world (Inr (200, failed_raw)) (Inr (JStr ''plan_1''))) (plan_request plan_raw)) =
       Returns (Response ''{"success":false}'' 500 json_headers)\<close>
proof -
  let ?w = "plan_world (Inr (200, failed_raw)) (Inr (JStr ''plan_1''))"
  have p: "JSON_parse ?w (body (plan_request plan_raw)) = Inr plan_json"
    by (simp add: plan_world_fields plan_request_body sample_parse_documents)
  have f: "fetch ?w pythonApiUrl (JSON_stringify ?w plan_json) = Inr (200, failed_raw)"
    by (simp add: plan_world_fields)
  have r: "JSON_parse ?w failed_raw = Inr failed_json"
    by (simp add: plan_world_fields sample_parse_documents)
  have n: "\<not> nullish failed_json"
    by (simp add: nullish_def failed_json_def)
  show ?thesis
    using no_success_500 [OF p f ok_200 r spec_double_success_samples(2)]
      p f ok_200 r spec_double_success_samples(2) n
    by (simp add: plan_world_fields sample_stringify_plans failed_raw_def)
qed

text \<open>
  The upstream body \<^verbatim>\<open>null\<close>: reading \<^verbatim>\<open>result.success\<close> throws, and the answer
  carries the error payload of the catch block, not the parsed result.
\<close>

theorem no_success_500_null_counterexample:
  \<open>fetch (plan_world (Inr (200, ''null'')) (Inr (JStr ''plan_1''))) pythonApiUrl
        (JSON_stringify (plan_world (Inr (200, ''null'')) (Inr (JStr ''plan_1''))) plan_json)
     = Inr (200, ''null'')
   \<and> ok 200
   \<and> JSON_parse (plan_world (Inr (200, ''null'')) (Inr (JStr ''plan_1''))) ''null'' = Inr JNull
   \<and> \<not> spec_double_success JNull
   \<and> JSON_stringify (plan_world (Inr (200, ''null'')) (Inr (JStr ''plan_1''))) JNull = ''null''
   \<and> generate_program (plan_world (Inr (200, ''null'')) (Inr (JStr ''plan_1''))) (plan_request plan_raw) =
       ([RequestJson, Fetch pythonApiUrl ''{"user_id":"u1"}''],
        Returns (Response ''{"success":false,"error":"Cannot read properties of null (reading 'success')"}''
                   500 json_headers))\<close>
proof -
  let ?w = "plan_world (Inr (200, ''null'')) (Inr (JStr ''plan_1''))"
  have "try_generate ?w (plan_request plan_raw) =
          ([RequestJson, Fetch pythonApiUrl (sample_stringify plan_json)],
           Inl (cannot_read ''null'' ''success''))"
    using try_generate_parsed [of ?w "plan_request plan_raw" plan_json 200 "''null''" JNull]
    by (simp add: plan_world_fields plan_request_body sample_parse_documents ok_200
          save_or_forward_def double_success_def)
  then have \<open>generate_program ?w (plan_request plan_raw) =
       ([RequestJson, Fetch pythonApiUrl ''{"user_id":"u1"}''],
        Returns (Response ''{"success":false,"error":"Cannot read properties of null (reading 'success')"}''
                   500 json_headers))\<close>
    by (simp add: generate_program_caught plan_world_fields sample_stringify_errors
          sample_stringify_plans)
  then show ?thesis
    by (simp add: plan_world_fields sample_parse_documents ok_200 spec_double_success_samples)
qed

section \<open>C6: the upstream status is not 2xx\<close>

text \<open>
  C6: when the external service answers with a status outside 200..299, the handler
  answers HTTP 500 with the payload \<^verbatim>\<open>{success: false, error: message}\<close>, where the
  message contains the decimal upstream status and the raw upstream body; no mutation is
  run.
\<close>

theorem upstream_error_500:
  assumes "JSON_parse w (body request) = Inr payload"
    and "fetch w pythonApiUrl (JSON_stringify w payload) = Inr (st, responseText)"
    and "\<not> ok st"
  shows "generate_program w request =
           ([RequestJson, Fetch pythonApiUrl (JSON_stringify w payload)],
            Returns (Response (JSON_stringify w (JObj [(''success'', JBool False),
                                                       (''error'', JStr (python_api_error st responseText))]))
                       500 json_headers))
         \<and> sublist (show_nat st) (python_api_error st responseText)
         \<and> read_nat (show_nat st) = st
         \<and> sublist responseText (python_api_error st responseText)"
proof -
  have "try_generate w request =
          ([RequestJson, Fetch pythonApiUrl (JSON_stringify w payload)],
           Inl (ErrorInstance ''Error'' (python_api_error st responseText)))"
    using assms by (simp add: try_generate_def)
  then have "generate_program w request =
           ([RequestJson, Fetch pythonApiUrl (JSON_stringify w payload)],
            Returns (Response (JSON_stringify w (JObj [(''success'', JBool False),
                                                       (''error'', JStr (python_api_error st responseText))]))
                       500 json_headers))"
    by (simp add: generate_program_def error_payload_def)
  moreover have "sublist (show_nat st) (python_api_error st responseText)"
    unfolding python_api_error_def by (rule sublist_appendI)
  moreover have "sublist responseText (python_api_error st responseText)"
  proof -
    have "python_api_error st responseText =
            (''Python API error: '' @ show_nat st @ '' - '') @ responseText"
      by (simp add: python_api_error_def)
    then have "suffix responseText (python_api_error st responseText)"
      by (rule suffixI)
    then show ?thesis by (rule suffix_imp_sublist)
  qed
  ultimately show ?thesis by (simp add: read_show_nat)
qed

theorem upstream_error_500_witness:
  \<open>JSON_parse (plan_world (Inr (503, ''Service Unavailable'')) (Inr (JStr ''plan_1'')))
       (body (plan_request plan_raw)) = Inr plan_json
   \<and> fetch (plan_world (Inr (503, ''Service Unavailable'')) (Inr (JStr ''plan_1''))) pythonApiUrl
        (JSON_stringify (plan_world (Inr (503, ''Service Unavailable'')) (Inr (JStr ''plan_1''))) plan_json)
     = Inr (503, ''Service Unavailable'')
   \<and> \<not> ok 503
   \<and> generate_program (plan_world (Inr (503, ''Service Unavailable'')) (Inr (JStr ''plan_1'')))
        (plan_request plan_raw) =
       ([RequestJson, Fetch pythonApiUrl ''{"user_id":"u1"}''],
        Returns (Response ''{"success":false,"error":"Python API error: 503 - Service Unavailable"}''
                   500 json_headers))\<close>
proof -
  let ?w = "plan_world (Inr (503, ''Service Unavailable'')) (Inr (JStr ''plan_1''))"
  have p: "JSON_parse ?w (body (plan_request plan_raw)) = Inr plan_json"
    by (simp add: plan_world_fields plan_request_body sample_parse_documents)
  have f: "fetch ?w pythonApiUrl (JSON_stringify ?w plan_json) = Inr (503, ''Service Unavailable'')"
    by (simp add: plan_world_fields)
  show ?thesis
    using upstream_error_500 [OF p f not_ok_503] p f not_ok_503
    by (simp add: plan_world_fields sample_stringify_plans quote_def python_api_error_def show_nat_503)
qed

end
